theory Spec2Isabelle
  imports Complex_Main "HOL-Library.Product_Lexorder" "HOL-Library.List_Lexorder"
    "HOL-Library.Char_ord" "HOL-Library.AList"
begin

section \<open>Versions, errors and log events\<close>

text \<open>
  Modelled from the spec: \<^verbatim>\<open>utils.Version\<close> is not among the sources. The spec describes a
  version as a 3-component ordered tuple (major, minor, patch) with a total order, and the
  requested version as one of AUTO, LATEST or an explicit literal. The tuple order is the
  lexicographic one (\<^theory_text>\<open>Product_Lexorder\<close>); a version tuple is always truthy in Python.
\<close>

type_synonym ver = "nat \<times> nat \<times> nat"

datatype Version = AUTO | LATEST | Explicit ver

text \<open>
  Every \<^verbatim>\<open>raise\<close> of \<^verbatim>\<open>dataset_builder.py\<close> is one constructor. The source raises only
  \<^verbatim>\<open>ValueError\<close> and \<^verbatim>\<open>AssertionError\<close>; the constructors that correspond to the spec's
  taxonomy carry the spec's names, and \<open>exception_class\<close> gives the Python class raised.
\<close>

datatype error =
    NoVersionDefined        \<comment> \<open>\<^verbatim>\<open>_set_version\<close>: neither config nor \<^verbatim>\<open>VERSION\<close>\<close>
  | InvalidVersion          \<comment> \<open>\<^verbatim>\<open>utils.Version(...)\<close> cannot convert its argument\<close>
  | VersionNotFoundError    \<comment> \<open>\<^verbatim>\<open>_choose_version\<close>, case 3\<close>
  | StaleCodeError          \<comment> \<open>\<^verbatim>\<open>_choose_version\<close>, case 4, code older than data\<close>
  | VersionAlreadySet       \<comment> \<open>\<^verbatim>\<open>_set_version\<close>, step 3\<close>
  | InfoBeforeVersion       \<comment> \<open>the \<^verbatim>\<open>info\<close> property read while \<^verbatim>\<open>_version\<close> is unset\<close>
  | AlreadyBoundError       \<comment> \<open>\<^verbatim>\<open>download_and_prepare\<close>: data already loaded\<close>
  | VersionCollisionError   \<comment> \<open>\<^verbatim>\<open>download_and_prepare\<close>: target directory exists\<close>
  | ConfigNotFound
  | ConfigNoName
  | ConfigNameClash
  | ConfigNoVersion
  | ConfigNoDescription
  | DuplicateConfigNames

datatype exception = ValueError | AssertionError

fun exception_class :: "error \<Rightarrow> exception" where
  "exception_class NoVersionDefined = AssertionError"
| "exception_class VersionAlreadySet = AssertionError"
| "exception_class InfoBeforeVersion = AssertionError"
| "exception_class _ = ValueError"

datatype log_event =
    Info_NoPreviousData | Info_IgnoringDisk | Info_Restoring | Warn_BackwardCompat
  | Warn_CustomConfig | Info_Reusing | Info_Generating

section \<open>Python helpers\<close>

text \<open>
  Truthiness of an optional string (\<^verbatim>\<open>None\<close> and \<^verbatim>\<open>""\<close> are falsy), and the POSIX versions of
  \<^verbatim>\<open>os.path.join\<close> (two arguments) and \<^verbatim>\<open>os.path.basename\<close>.
\<close>

definition truthy :: "string option \<Rightarrow> bool" where
  "truthy s = (case s of None \<Rightarrow> False | Some x \<Rightarrow> x \<noteq> [])"

definition path_join :: "string \<Rightarrow> string \<Rightarrow> string" where
  "path_join a b =
     (if b \<noteq> [] \<and> hd b = CHR ''/'' then b
      else if a = [] \<or> last a = CHR ''/'' then a @ b
      else a @ ''/'' @ b)"

definition basename :: "string \<Rightarrow> string" where
  "basename p = rev (takeWhile (\<lambda>c. c \<noteq> CHR ''/'') (rev p))"

section \<open>Collaborators outside the sources\<close>

text \<open>
  The builder reads the file system through \<^verbatim>\<open>tf.gfile.Exists\<close> and
  \<^verbatim>\<open>tf.gfile.ListDirectory\<close>, converts directory names with \<^verbatim>\<open>utils.Version(dir_name)\<close>
  (\<open>None\<close> stands for its \<^verbatim>\<open>ValueError\<close>) and names directories with \<^verbatim>\<open>str(version)\<close>.
  None of these is among the sources, so they are parameters of the model, together with
  \<^verbatim>\<open>os.path.expanduser\<close> and \<^verbatim>\<open>constants.DATA_DIR\<close>.
\<close>

record env =
  gfile_Exists :: "string \<Rightarrow> bool"
  gfile_ListDirectory :: "string \<Rightarrow> string list"
  Version_of_str :: "string \<Rightarrow> ver option"
  str_of_Version :: "ver \<Rightarrow> string"
  expanduser :: "string \<Rightarrow> string"
  DATA_DIR :: string

section \<open>Builder configs and the dataset class\<close>

text \<open>
  \<^verbatim>\<open>BuilderConfig\<close> objects are compared by identity (\<^verbatim>\<open>is not\<close>) in the source, so the
  record carries the identity of the object; two records are equal exactly when they are
  the same object. \<open>version\<close> and \<open>description\<close> default to \<^verbatim>\<open>None\<close>.
\<close>

record BuilderConfig =
  object_id :: nat
  name :: string
  version :: "ver option"
  description :: "string option"

text \<open>The class attributes of a \<^verbatim>\<open>DatasetBuilder\<close> subclass.\<close>

record dataset_class =
  ds_name :: string
  VERSION :: "ver option"
  BUILDER_CONFIGS :: "BuilderConfig list"

text \<open>
  The \<^verbatim>\<open>builder_configs\<close> class property: a dict from name to config, built in list order
  (a later config replaces an earlier one of the same name), refused when names repeat.
\<close>

definition builder_configs :: "dataset_class \<Rightarrow> error + (string \<times> BuilderConfig) list" where
  "builder_configs C =
     (let config_dict = fold (\<lambda>config d. AList.update (name config) config d) (BUILDER_CONFIGS C) []
      in if length config_dict \<noteq> length (BUILDER_CONFIGS C) then Inl DuplicateConfigNames
         else Inr config_dict)"

text \<open>
  \<^verbatim>\<open>_create_builder_config\<close>. The argument is \<^verbatim>\<open>None\<close>, a \<^verbatim>\<open>str\<close> name or a config object.
  \<open>validate_config\<close> is the part of the method from \<^verbatim>\<open>name = builder_config.name\<close> on.
\<close>

datatype config_arg = NoConfig | ConfigName string | ConfigObject BuilderConfig

definition validate_config ::
  "dataset_class \<Rightarrow> BuilderConfig \<Rightarrow> error + (BuilderConfig option \<times> log_event list)" where
  "validate_config C builder_config =
     (if name builder_config = [] then Inl ConfigNoName
      else case builder_configs C of
        Inl e \<Rightarrow> Inl e
      | Inr d \<Rightarrow>
          (case map_of d (name builder_config) of
             None \<Rightarrow> Inr (Some builder_config, [Warn_CustomConfig])
           | Some declared \<Rightarrow>
               if builder_config \<noteq> declared then Inl ConfigNameClash
               else if version builder_config = None then Inl ConfigNoVersion
               else if \<not> truthy (description builder_config) then Inl ConfigNoDescription
               else Inr (Some builder_config, [])))"

fun create_builder_config ::
  "dataset_class \<Rightarrow> config_arg \<Rightarrow> error + (BuilderConfig option \<times> log_event list)" where
  "create_builder_config C NoConfig =
     (case BUILDER_CONFIGS C of
        [] \<Rightarrow> Inr (None, [])
      | first # _ \<Rightarrow> validate_config C first)"
| "create_builder_config C (ConfigName n) =
     (if n = [] then Inr (None, [])
      else case builder_configs C of
        Inl e \<Rightarrow> Inl e
      | Inr d \<Rightarrow>
          (case map_of d n of
             None \<Rightarrow> Inl ConfigNotFound
           | Some builder_config \<Rightarrow> validate_config C builder_config))"
| "create_builder_config C (ConfigObject builder_config) = validate_config C builder_config"

section \<open>The builder instance\<close>

text \<open>
  The instance attributes \<^verbatim>\<open>_version\<close>, \<^verbatim>\<open>_builder_config\<close>, \<^verbatim>\<open>_data_dir_root\<close> and
  \<^verbatim>\<open>_data_dir\<close> (an identifier cannot start with an underscore here, hence \<open>self_\<close>).
\<close>

record builder =
  cls :: dataset_class
  self_version :: "ver option"
  self_builder_config :: "BuilderConfig option"
  self_data_dir_root :: string
  self_data_dir :: "string option"

subsection \<open>\<^verbatim>\<open>_get_data_dir\<close>\<close>

text \<open>
  With an explicit version the path is built and returned without looking at the disk.
  Otherwise the valid version directories are collected as \<open>(version, dir_name)\<close> pairs,
  sorted in reverse, and the first one is taken.
\<close>

definition get_data_dir :: "env \<Rightarrow> builder \<Rightarrow> Version option \<Rightarrow> string option" where
  "get_data_dir E b version_arg =
     (let version_arg =
            (if version_arg \<in> {Some LATEST, Some AUTO} then None else version_arg);
          builder_data_dir = path_join (self_data_dir_root b) (ds_name (cls b));
          builder_data_dir =
            (case self_builder_config b of
               Some builder_config \<Rightarrow> path_join builder_data_dir (name builder_config)
             | None \<Rightarrow> builder_data_dir)
      in case version_arg of
           Some (Explicit v) \<Rightarrow> Some (path_join builder_data_dir (str_of_Version E v))
         | _ \<Rightarrow>
           if \<not> gfile_Exists E builder_data_dir then None
           else
             (let version_dirnames =
                    List.map_filter
                      (\<lambda>dir_name. map_option (\<lambda>v. (v, dir_name)) (Version_of_str E dir_name))
                      (gfile_ListDirectory E builder_data_dir)
              in case rev (sort version_dirnames) of
                   highest # _ \<Rightarrow> Some (path_join builder_data_dir (snd highest))
                 | [] \<Rightarrow> None))"

subsection \<open>\<^verbatim>\<open>_choose_version\<close>\<close>

text \<open>
  The decision returns \<open>use_code\<close> together with the messages it logged; a \<^verbatim>\<open>raise\<close> is
  \<open>Inl\<close>. \<open>data_version\<close> is \<open>None\<close> when no previous data was found. The four cases are
  tested in the order of the source.
\<close>

definition choose_version ::
  "Version \<Rightarrow> ver option \<Rightarrow> ver \<Rightarrow> error + (bool \<times> log_event list)" where
  "choose_version requested_version data_version code_version =
     (if data_version = None \<and> requested_version \<in> {AUTO, LATEST} then
        Inr (True, [Info_NoPreviousData])
      else if data_version \<noteq> None \<and> the data_version < code_version
              \<and> requested_version = LATEST then
        Inr (True, [Info_IgnoringDisk])
      else if data_version = None then Inl VersionNotFoundError
      else
        (let warned = (if code_version > the data_version then [Warn_BackwardCompat] else [])
         in if code_version < the data_version then Inl StaleCodeError
            else Inr (False, Info_Restoring # warned)))"

subsection \<open>\<^verbatim>\<open>_set_version\<close>\<close>

text \<open>
  Step 1 of \<^verbatim>\<open>_set_version\<close>. The data version is read back from the last component of
  \<^verbatim>\<open>_data_dir\<close>. The code version is the config's when there is a config, the class's
  otherwise; \<^verbatim>\<open>utils.Version\<close> of \<^verbatim>\<open>None\<close> is taken to raise, as the spec knows only explicit
  code versions.
\<close>

definition data_version_of :: "env \<Rightarrow> builder \<Rightarrow> error + ver option" where
  "data_version_of E b =
     (if truthy (self_data_dir b) then
        (case Version_of_str E (basename (the (self_data_dir b))) of
           None \<Rightarrow> Inl InvalidVersion
         | Some v \<Rightarrow> Inr (Some v))
      else Inr None)"

definition code_version_of :: "builder \<Rightarrow> error + ver" where
  "code_version_of b =
     (case (case self_builder_config b of
              Some builder_config \<Rightarrow> version builder_config
            | None \<Rightarrow> VERSION (cls b)) of
        None \<Rightarrow> Inl InvalidVersion
      | Some v \<Rightarrow> Inr v)"

text \<open>
  Steps 2 to 4. The calls on \<^verbatim>\<open>self.info\<close> at the end of step 4 go to \<^verbatim>\<open>DatasetInfo\<close>, which
  is not among the sources; the \<^verbatim>\<open>info\<close> property itself cannot raise there, since
  \<^verbatim>\<open>_version\<close> has just been set.
\<close>

definition set_version :: "env \<Rightarrow> builder \<Rightarrow> Version \<Rightarrow> error + (builder \<times> log_event list)" where
  "set_version E b version_arg =
     (if self_builder_config b = None \<and> VERSION (cls b) = None then Inl NoVersionDefined
      else case data_version_of E b of
        Inl e \<Rightarrow> Inl e
      | Inr data_version \<Rightarrow>
      (case code_version_of b of
        Inl e \<Rightarrow> Inl e
      | Inr code_version \<Rightarrow>
      (case choose_version version_arg data_version code_version of
        Inl e \<Rightarrow> Inl e
      | Inr (use_code, logged) \<Rightarrow>
          if self_version b \<noteq> None then Inl VersionAlreadySet
          else if use_code then
            Inr (b\<lparr>self_version := Some code_version, self_data_dir := None\<rparr>, logged)
          else
            Inr (b\<lparr>self_version := data_version\<rparr>, logged))))"

subsection \<open>\<^verbatim>\<open>__init__\<close>\<close>

text \<open>
  The constructor. A \<^verbatim>\<open>str\<close> version is assumed converted already, so the argument is
  \<^verbatim>\<open>None\<close> or a \<open>Version\<close> (the parameter \<^verbatim>\<open>version\<close> is \<open>version_arg\<close> here, \<open>version\<close> being
  the field of a config).
\<close>

definition init ::
  "env \<Rightarrow> dataset_class \<Rightarrow> string option \<Rightarrow> config_arg \<Rightarrow> Version option
     \<Rightarrow> error + (builder \<times> log_event list)" where
  "init E C data_dir config version_arg =
     (let version_arg = (case version_arg of None \<Rightarrow> AUTO | Some v \<Rightarrow> v)
      in case create_builder_config C config of
        Inl e \<Rightarrow> Inl e
      | Inr (builder_config, logged) \<Rightarrow>
          (let self = \<lparr>cls = C, self_version = None, self_builder_config = builder_config,
                       self_data_dir_root =
                         expanduser E (if truthy data_dir then the data_dir else DATA_DIR E),
                       self_data_dir = None\<rparr>;
               self = self\<lparr>self_data_dir := get_data_dir E self (Some version_arg)\<rparr>
           in case set_version E self version_arg of
                Inl e \<Rightarrow> Inl e
              | Inr (self, logged') \<Rightarrow> Inr (self, logged @ logged')))"

subsection \<open>\<^verbatim>\<open>download_and_prepare\<close>\<close>

text \<open>
  \<^verbatim>\<open>download.GenerateMode\<close> is an enumeration outside the sources; its three members are the
  ones the module names. The method returns nothing, so the outcome says how it ended:
  it raised, it returned early reusing the bound data, or it went on to generate into
  the given directory (the generation itself, \<^verbatim>\<open>incomplete_dir\<close> and the abstract
  \<^verbatim>\<open>_download_and_prepare\<close>, is outside the sources). The builder is returned as the
  method leaves it, also when it raises: \<^verbatim>\<open>_data_dir\<close> is assigned before the existence
  test. Building the download manager reads \<^verbatim>\<open>self.info\<close>, which raises while \<^verbatim>\<open>_version\<close>
  is unset.

  Modelled from the spec: \<^verbatim>\<open>DatasetInfo\<close> is not among the sources; the target directory is
  computed from the resolved version, so \<^verbatim>\<open>self.info.version\<close> is the builder's \<^verbatim>\<open>_version\<close>.
\<close>

datatype GenerateMode = FORCE_REDOWNLOAD | REUSE_CACHE_IF_EXISTS | REUSE_DATASET_IF_EXISTS

datatype outcome = Raised error | Reused | Generated string

definition download_and_prepare ::
  "env \<Rightarrow> builder \<Rightarrow> GenerateMode option \<Rightarrow> outcome \<times> builder \<times> log_event list" where
  "download_and_prepare E self mode =
     (let mode = (case mode of Some m \<Rightarrow> m | None \<Rightarrow> REUSE_DATASET_IF_EXISTS)
      in if truthy (self_data_dir self) \<and> mode = REUSE_DATASET_IF_EXISTS then
           (Reused, self, [Info_Reusing])
         else if truthy (self_data_dir self) then (Raised AlreadyBoundError, self, [])
         else case self_version self of
           None \<Rightarrow> (Raised InfoBeforeVersion, self, [])
         | Some v \<Rightarrow>
             (let self = self\<lparr>self_data_dir := get_data_dir E self (Some (Explicit v))\<rparr>
              in if gfile_Exists E (the (self_data_dir self)) then
                   (Raised VersionCollisionError, self, [])
                 else (Generated (the (self_data_dir self)), self, [Info_Generating])))"

section \<open>\<^verbatim>\<open>Flic._generate_examples\<close>\<close>

text \<open>
  One entry of \<^verbatim>\<open>data["examples"]\<close>, as loaded from the annotation file: the fields are
  named after the index the generator reads them at. Numbers are loaded as doubles
  (\<^verbatim>\<open>mat_dtype=True\<close>); they are only tested for truthiness, that is for being non-zero, or
  passed on.
\<close>

record example =
  f0 :: "nat list"
  f1 :: string
  f2 :: "real list \<times> real list"
  f3 :: string
  f5 :: real
  f6 :: "real list"
  f7 :: real
  f8 :: real

record features =
  image :: string
  poselet_hit_idx :: "nat list"
  moviename :: string
  xcoords :: "real list"
  ycoords :: "real list"
  currframe :: real
  torsobox :: "real list"

text \<open>The feature dictionary built from one example; \<open>dir\<close> is \<^verbatim>\<open>self.builder_config.dir\<close>.\<close>

definition features_of :: "string \<Rightarrow> string \<Rightarrow> example \<Rightarrow> features" where
  "features_of dir extract_path example =
     \<lparr>image = path_join (path_join (path_join extract_path dir) ''images'') (f3 example),
      poselet_hit_idx = f0 example,
      moviename = f1 example,
      xcoords = fst (f2 example),
      ycoords = snd (f2 example),
      currframe = f5 example,
      torsobox = f6 example\<rparr>"

text \<open>The generator, as the list of the pairs it yields, in order.\<close>

definition generate_examples ::
  "string \<Rightarrow> string \<Rightarrow> example list \<Rightarrow> bool \<Rightarrow> bool \<Rightarrow> (nat \<times> features) list" where
  "generate_examples dir extract_path examples istrain istest =
     map (\<lambda>(u_id, example). (u_id, features_of dir extract_path example))
       (filter (\<lambda>(u_id, example). (f7 example \<noteq> 0 \<and> istrain) \<or> (f8 example \<noteq> 0 \<and> istest))
          (enumerate 0 examples))"

section \<open>Concrete inputs\<close>

text \<open>
  An environment to run the model in: a stand-in for \<^verbatim>\<open>utils.Version\<close> on four version
  strings, and a disk that holds the given version directories of the dataset
  \<^verbatim>\<open>mnist\<close> under \<^verbatim>\<open>/data\<close>.
\<close>

definition demo_Version_of_str :: "string \<Rightarrow> ver option" where
  "demo_Version_of_str =
     map_of [(''0.9.0'', (0, 9, 0)), (''1.0.0'', (1, 0, 0)), (''1.1.0'', (1, 1, 0)),
             (''2.0.0'', (2, 0, 0))]"

definition demo_str_of_Version :: "ver \<Rightarrow> string" where
  "demo_str_of_Version v =
     (if v = (0, 9, 0) then ''0.9.0'' else if v = (1, 0, 0) then ''1.0.0''
      else if v = (1, 1, 0) then ''1.1.0'' else if v = (2, 0, 0) then ''2.0.0''
      else ''other'')"

definition demo_env :: "string list \<Rightarrow> env" where
  "demo_env dirs =
     \<lparr>gfile_Exists = (\<lambda>p. dirs \<noteq> [] \<and> (p = ''/data/mnist'' \<or> p \<in> set (map (path_join ''/data/mnist'') dirs))),
      gfile_ListDirectory = (\<lambda>p. if p = ''/data/mnist'' then dirs else []),
      Version_of_str = demo_Version_of_str,
      str_of_Version = demo_str_of_Version,
      expanduser = (\<lambda>p. p),
      DATA_DIR = ''/data''\<rparr>"

definition mnist :: dataset_class where
  "mnist = \<lparr>ds_name = ''mnist'', VERSION = Some (1, 0, 0), BUILDER_CONFIGS = []\<rparr>"

text \<open>A builder of \<^verbatim>\<open>mnist\<close> with the given \<^verbatim>\<open>_version\<close> and \<^verbatim>\<open>_data_dir\<close>.\<close>

definition mnist_builder :: "ver option \<Rightarrow> string option \<Rightarrow> builder" where
  "mnist_builder v d =
     \<lparr>cls = mnist, self_version = v, self_builder_config = None,
      self_data_dir_root = ''/data'', self_data_dir = d\<rparr>"

text \<open>
  The two declared configs of a dataset class \<^verbatim>\<open>flic\<close>, and a config object of a user's that
  bears the name of the first.
\<close>

definition small_config :: BuilderConfig where
  "small_config =
     \<lparr>object_id = 0, name = ''small'', version = Some (2, 0, 0), description = Some ''Uses small''\<rparr>"

definition other_small_config :: BuilderConfig where
  "other_small_config =
     \<lparr>object_id = 1, name = ''small'', version = Some (2, 0, 0), description = Some ''Mine''\<rparr>"

definition full_config :: BuilderConfig where
  "full_config =
     \<lparr>object_id = 2, name = ''full'', version = Some (2, 0, 0), description = Some ''Uses full''\<rparr>"

definition flic :: dataset_class where
  "flic = \<lparr>ds_name = ''flic'', VERSION = None, BUILDER_CONFIGS = [small_config, full_config]\<rparr>"

text \<open>An example that carries both the training and the test mark.\<close>

definition both_marks :: example where
  "both_marks =
     \<lparr>f0 = [], f1 = ''movie'', f2 = ([], []), f3 = ''a.jpg'', f5 = 1, f6 = [], f7 = 1, f8 = 1\<rparr>"

definition train_only :: example where
  "train_only =
     \<lparr>f0 = [], f1 = ''movie'', f2 = ([], []), f3 = ''b.jpg'', f5 = 2, f6 = [], f7 = 1, f8 = 0\<rparr>"

definition test_only :: example where
  "test_only =
     \<lparr>f0 = [], f1 = ''movie'', f2 = ([], []), f3 = ''c.jpg'', f5 = 3, f6 = [], f7 = 0, f8 = 1\<rparr>"

section \<open>Facts about version resolution\<close>

lemma code_version_defined:
  assumes "code_version_of b = Inr cv"
  shows "(self_builder_config b = None \<and> VERSION (cls b) = None) = False"
proof (cases "self_builder_config b")
  case None
  with assms show ?thesis
    by (cases "VERSION (cls b)") (simp_all add: code_version_of_def)
next
  case (Some c)
  then show ?thesis by simp
qed

lemma get_data_dir_explicit:
  "get_data_dir E b (Some (Explicit v)) =
     Some (path_join
       (case self_builder_config b of
          Some builder_config \<Rightarrow>
            path_join (path_join (self_data_dir_root b) (ds_name (cls b))) (name builder_config)
        | None \<Rightarrow> path_join (self_data_dir_root b) (ds_name (cls b)))
       (str_of_Version E v))"
  by (simp add: get_data_dir_def Let_def)

lemma choose_version_explicit_absent:
  "choose_version (Explicit v) None cv = Inl VersionNotFoundError"
  by (simp add: choose_version_def)

text \<open>
  With an explicit version whose directory name is not empty, the constructor never
  raises the not-found error of case 3, whatever the disk holds.
\<close>

lemma path_join_nonempty: "b \<noteq> [] \<Longrightarrow> path_join a b \<noteq> []"
  by (simp add: path_join_def)

lemma validate_config_not_VersionNotFound:
  "validate_config C c \<noteq> Inl VersionNotFoundError"
proof (cases "builder_configs C")
  case (Inl e)
  then have "e = DuplicateConfigNames"
    by (simp add: builder_configs_def Let_def split: if_splits)
  with Inl show ?thesis by (simp add: validate_config_def)
next
  case (Inr d)
  then show ?thesis
    by (cases "map_of d (name c)") (simp_all add: validate_config_def)
qed

lemma create_builder_config_not_VersionNotFound:
  "create_builder_config C config \<noteq> Inl VersionNotFoundError"
proof (cases config)
  case NoConfig
  then show ?thesis
    by (cases "BUILDER_CONFIGS C") (simp_all add: validate_config_not_VersionNotFound)
next
  case (ConfigName n)
  show ?thesis
  proof (cases "builder_configs C")
    case (Inl e)
    then have "e = DuplicateConfigNames"
      by (simp add: builder_configs_def Let_def split: if_splits)
    with Inl ConfigName show ?thesis by simp
  next
    case (Inr d)
    with ConfigName show ?thesis
      by (cases "map_of d n") (simp_all add: validate_config_not_VersionNotFound)
  qed
next
  case (ConfigObject c)
  then show ?thesis by (simp add: validate_config_not_VersionNotFound)
qed

lemma set_version_VersionNotFound:
  assumes "set_version E b va = Inl VersionNotFoundError"
  shows "\<not> truthy (self_data_dir b)"
proof
  assume t: "truthy (self_data_dir b)"
  show False
  proof (cases "Version_of_str E (basename (the (self_data_dir b)))")
    case None
    with t have "data_version_of E b = Inl InvalidVersion" by (simp add: data_version_of_def)
    with assms show False by (simp add: set_version_def split: if_splits)
  next
    case (Some dv)
    with t have dv: "data_version_of E b = Inr (Some dv)" by (simp add: data_version_of_def)
    show False
    proof (cases "code_version_of b")
      case (Inl e)
      then have "e = InvalidVersion" by (simp add: code_version_of_def split: option.splits)
      with Inl dv assms show False by (simp add: set_version_def split: if_splits)
    next
      case (Inr cv)
      have "choose_version va (Some dv) cv \<noteq> Inl VersionNotFoundError"
        by (simp add: choose_version_def)
      with Inr dv assms show False
        by (cases "choose_version va (Some dv) cv")
           (auto simp add: set_version_def split: if_splits)
    qed
  qed
qed

lemma init_explicit_not_VersionNotFound:
  assumes "str_of_Version E v \<noteq> []"
  shows "init E C data_dir config (Some (Explicit v)) \<noteq> Inl VersionNotFoundError"
proof
  assume a: "init E C data_dir config (Some (Explicit v)) = Inl VersionNotFoundError"
  show False
  proof (cases "create_builder_config C config")
    case (Inl e)
    with a have "e = VersionNotFoundError" by (simp add: init_def)
    with Inl create_builder_config_not_VersionNotFound show False by blast
  next
    case (Inr r)
    obtain bc lg where r: "r = (bc, lg)" by (cases r)
    define b0 where "b0 = \<lparr>cls = C, self_version = None, self_builder_config = bc,
        self_data_dir_root = expanduser E (if truthy data_dir then the data_dir else DATA_DIR E),
        self_data_dir = None\<rparr>"
    define b1 where "b1 = b0\<lparr>self_data_dir := get_data_dir E b0 (Some (Explicit v))\<rparr>"
    from a Inr r have "set_version E b1 (Explicit v) = Inl VersionNotFoundError"
      by (simp add: init_def Let_def b0_def b1_def split: sum.splits prod.splits
            split del: if_split cong: if_cong)
    then have "\<not> truthy (self_data_dir b1)" by (rule set_version_VersionNotFound)
    moreover have "truthy (self_data_dir b1)"
      using assms by (simp add: b1_def get_data_dir_explicit truthy_def path_join_nonempty)
    ultimately show False by contradiction
  qed
qed

text \<open>
  In the modes \<^verbatim>\<open>LATEST\<close> and \<^verbatim>\<open>AUTO\<close>, \<^verbatim>\<open>_get_data_dir\<close> returns the directory of the greatest
  \<open>(version, dir_name)\<close> pair among the valid version directories, when there is one.
\<close>

lemma hd_rev_sort_Max:
  fixes xs :: "('a :: linorder) list"
  assumes "xs \<noteq> []"
  shows "hd (rev (sort xs)) = Max (set xs)"
proof -
  let ?ys = "sort xs"
  from assms have ne: "?ys \<noteq> []" by (metis length_0_conv length_sort)
  then have "hd (rev ?ys) = last ?ys" by (simp add: hd_rev)
  moreover have "Max (set xs) = last ?ys"
  proof (rule Max_eqI)
    show "finite (set xs)" by simp
    show "last ?ys \<in> set xs" using ne last_in_set [of ?ys] by simp
    fix y assume "y \<in> set xs"
    then have "y \<in> set ?ys" by simp
    then obtain i where i: "i < length ?ys" "?ys ! i = y"
      unfolding in_set_conv_nth by blast
    then have "?ys ! i \<le> ?ys ! (length ?ys - 1)"
      by (intro sorted_nth_mono) auto
    with i ne show "y \<le> last ?ys" by (simp add: last_conv_nth)
  qed
  ultimately show ?thesis by simp
qed


lemma highest_version_dir:
  fixes ps :: "(ver \<times> string) list"
  shows "(case rev (sort ps) of highest # _ \<Rightarrow> Some (f (snd highest)) | [] \<Rightarrow> None) =
         (if ps \<noteq> [] then Some (f (snd (Max (set ps)))) else None)"
proof (cases "rev (sort ps)")
  case Nil
  then have "length (sort ps) = 0" by simp
  then have "ps = []" by simp
  with Nil show ?thesis by simp
next
  case (Cons h t)
  then have ne: "ps \<noteq> []" by auto
  from Cons have "hd (rev (sort ps)) = h" by simp
  with hd_rev_sort_Max [OF ne] have "h = Max (set ps)" by simp
  with Cons ne show ?thesis by simp
qed

lemma get_data_dir_latest:
  assumes "version_arg = Some LATEST \<or> version_arg = Some AUTO"
  shows "get_data_dir E b version_arg =
     (let builder_data_dir =
            (case self_builder_config b of
               Some builder_config \<Rightarrow>
                 path_join (path_join (self_data_dir_root b) (ds_name (cls b)))
                   (name builder_config)
             | None \<Rightarrow> path_join (self_data_dir_root b) (ds_name (cls b)));
          found = List.map_filter
                    (\<lambda>dir_name. map_option (\<lambda>v. (v, dir_name)) (Version_of_str E dir_name))
                    (gfile_ListDirectory E builder_data_dir)
      in if gfile_Exists E builder_data_dir \<and> found \<noteq> []
         then Some (path_join builder_data_dir (snd (Max (set found))))
         else None)"
  using assms unfolding get_data_dir_def Let_def highest_version_dir by auto

text \<open>
  C1. An explicit version that is absent from the disk: the constructor is run on an
  empty disk, for the dataset \<^verbatim>\<open>mnist\<close> at code version 1.0.0, with version 0.9.0 requested.
  \<^verbatim>\<open>_get_data_dir\<close> hands back the path of the requested version without testing that it
  exists, so the data version is read from that path, case 3 of \<^verbatim>\<open>_choose_version\<close> is
  not reached, and the builder comes out bound to the missing directory at version 0.9.0.
\<close>

theorem explicit_absent_version_is_bound:
  "init (demo_env []) mnist None NoConfig (Some (Explicit (0, 9, 0))) =
     Inr (mnist_builder (Some (0, 9, 0)) (Some ''/data/mnist/0.9.0''),
          [Info_Restoring, Warn_BackwardCompat])
   \<and> \<not> gfile_Exists (demo_env []) ''/data/mnist/0.9.0''"
  by code_simp

text \<open>
  C2, as stated: a builder bound to an existing directory, \<^verbatim>\<open>download_and_prepare\<close> called
  with the default mode. The call returns, reusing the data; nothing is raised.
\<close>

theorem bound_builder_default_mode_returns:
  "fst (download_and_prepare (demo_env [''1.0.0''])
          (mnist_builder (Some (1, 0, 0)) (Some ''/data/mnist/1.0.0'')) None) = Reused
   \<and> fst (download_and_prepare (demo_env [''1.0.0''])
          (mnist_builder (Some (1, 0, 0)) (Some ''/data/mnist/1.0.0'')) None)
       \<noteq> Raised AlreadyBoundError"
  by code_simp

text \<open>
  C2, amended: on a builder bound to a data directory, \<^verbatim>\<open>download_and_prepare\<close> returns at
  once, reusing the data, when the mode is the default (\<^verbatim>\<open>None\<close> or
  \<^verbatim>\<open>REUSE_DATASET_IF_EXISTS\<close>), and raises the already-bound error for any other mode; the
  builder is left as it was in both cases.
\<close>

theorem download_and_prepare_bound:
  "truthy (self_data_dir b) \<Longrightarrow>
   download_and_prepare E b mode =
     (if mode = None \<or> mode = Some REUSE_DATASET_IF_EXISTS then (Reused, b, [Info_Reusing])
      else (Raised AlreadyBoundError, b, []))"
  by (auto simp: download_and_prepare_def split: option.splits)

theorem download_and_prepare_bound_witness:
  "truthy (self_data_dir (mnist_builder (Some (1, 0, 0)) (Some ''/data/mnist/1.0.0'')))
   \<and> download_and_prepare (demo_env [''1.0.0''])
        (mnist_builder (Some (1, 0, 0)) (Some ''/data/mnist/1.0.0'')) (Some FORCE_REDOWNLOAD) =
       (Raised AlreadyBoundError, mnist_builder (Some (1, 0, 0)) (Some ''/data/mnist/1.0.0''), [])"
proof -
  have h: "truthy (self_data_dir (mnist_builder (Some (1, 0, 0)) (Some ''/data/mnist/1.0.0'')))"
    by (simp add: mnist_builder_def truthy_def)
  from download_and_prepare_bound [OF h, of "demo_env [''1.0.0'']" "Some FORCE_REDOWNLOAD"] h
  show ?thesis by simp
qed

text \<open>
  C3. In \<^verbatim>\<open>LATEST\<close> mode, when the version found on disk is strictly below the code version,
  \<^verbatim>\<open>_set_version\<close> takes the code version and resets \<^verbatim>\<open>_data_dir\<close> to \<^verbatim>\<open>None\<close>: the data on
  disk is ignored.
\<close>

theorem latest_with_older_data_uses_code:
  assumes "data_version_of E b = Inr (Some dv)" and "code_version_of b = Inr cv"
    and "dv < cv" and "self_version b = None"
  shows "set_version E b LATEST =
     Inr (b\<lparr>self_version := Some cv, self_data_dir := None\<rparr>, [Info_IgnoringDisk])"
proof -
  have "choose_version LATEST (Some dv) cv = Inr (True, [Info_IgnoringDisk])"
    using assms(3) by (simp add: choose_version_def)
  then show ?thesis
    using assms by (simp add: set_version_def code_version_defined [OF assms(2)])
qed

theorem latest_with_older_data_uses_code_witness:
  "data_version_of (demo_env [''0.9.0'']) (mnist_builder None (Some ''/data/mnist/0.9.0''))
     = Inr (Some (0, 9, 0))
   \<and> code_version_of (mnist_builder None (Some ''/data/mnist/0.9.0'')) = Inr (1, 0, 0)
   \<and> ((0, 9, 0) :: ver) < (1, 0, 0)
   \<and> self_version (mnist_builder None (Some ''/data/mnist/0.9.0'')) = None
   \<and> set_version (demo_env [''0.9.0'']) (mnist_builder None (Some ''/data/mnist/0.9.0'')) LATEST =
       Inr ((mnist_builder None (Some ''/data/mnist/0.9.0''))
              \<lparr>self_version := Some (1, 0, 0), self_data_dir := None\<rparr>, [Info_IgnoringDisk])"
proof -
  have h1: "data_version_of (demo_env [''0.9.0'']) (mnist_builder None (Some ''/data/mnist/0.9.0''))
     = Inr (Some (0, 9, 0))"
    by code_simp
  have h2: "code_version_of (mnist_builder None (Some ''/data/mnist/0.9.0'')) = Inr (1, 0, 0)"
    by code_simp
  have h3: "((0, 9, 0) :: ver) < (1, 0, 0)"
    by simp
  have h4: "self_version (mnist_builder None (Some ''/data/mnist/0.9.0'')) = None"
    by (simp add: mnist_builder_def)
  from latest_with_older_data_uses_code [OF h1 h2 h3 h4] h1 h2 h3 h4
  show ?thesis by blast
qed

text \<open>
  C4. When the version found on disk is strictly above the code version, the decision
  raises the stale-code error whatever version was requested, and so does
  \<^verbatim>\<open>_set_version\<close>: no builder state comes back, the newer data is not bound.
\<close>

theorem newer_data_raises_stale_code:
  assumes "data_version_of E b = Inr (Some dv)" and "code_version_of b = Inr cv" and "cv < dv"
  shows "set_version E b requested = Inl StaleCodeError
       \<and> choose_version requested (Some dv) cv = Inl StaleCodeError"
proof -
  from assms(3) have "\<not> dv < cv" by (simp add: not_less less_imp_le)
  with assms(3) have "choose_version requested (Some dv) cv = Inl StaleCodeError"
    by (simp add: choose_version_def)
  then show ?thesis
    using assms by (simp add: set_version_def code_version_defined [OF assms(2)])
qed

theorem newer_data_raises_stale_code_witness:
  "data_version_of (demo_env [''1.1.0'']) (mnist_builder None (Some ''/data/mnist/1.1.0''))
     = Inr (Some (1, 1, 0))
   \<and> code_version_of (mnist_builder None (Some ''/data/mnist/1.1.0'')) = Inr (1, 0, 0)
   \<and> ((1, 0, 0) :: ver) < (1, 1, 0)
   \<and> set_version (demo_env [''1.1.0'']) (mnist_builder None (Some ''/data/mnist/1.1.0'')) AUTO
       = Inl StaleCodeError"
proof -
  have h1: "data_version_of (demo_env [''1.1.0'']) (mnist_builder None (Some ''/data/mnist/1.1.0''))
     = Inr (Some (1, 1, 0))"
    by code_simp
  have h2: "code_version_of (mnist_builder None (Some ''/data/mnist/1.1.0'')) = Inr (1, 0, 0)"
    by code_simp
  have h3: "((1, 0, 0) :: ver) < (1, 1, 0)"
    by simp
  from newer_data_raises_stale_code [OF h1 h2 h3, of AUTO] h1 h2 h3
  show ?thesis by blast
qed

text \<open>
  C5. When the decision falls on the data on disk (the request is not \<^verbatim>\<open>LATEST\<close>) and the
  version on disk is strictly below the code version, \<^verbatim>\<open>_set_version\<close> succeeds: the
  backward-compatibility warning is logged, the data version becomes the builder's
  version and \<^verbatim>\<open>_data_dir\<close> stays bound.
\<close>

theorem older_data_is_restored_with_warning:
  assumes "data_version_of E b = Inr (Some dv)" and "code_version_of b = Inr cv"
    and "dv < cv" and "requested \<noteq> LATEST" and "self_version b = None"
  shows "set_version E b requested =
     Inr (b\<lparr>self_version := Some dv\<rparr>, [Info_Restoring, Warn_BackwardCompat])"
proof -
  from assms(3) have "\<not> cv < dv" by (simp add: not_less less_imp_le)
  with assms(3,4) have
    "choose_version requested (Some dv) cv = Inr (False, [Info_Restoring, Warn_BackwardCompat])"
    by (simp add: choose_version_def)
  then show ?thesis
    using assms by (simp add: set_version_def code_version_defined [OF assms(2)])
qed

theorem older_data_is_restored_with_warning_witness:
  "data_version_of (demo_env [''0.9.0'']) (mnist_builder None (Some ''/data/mnist/0.9.0''))
     = Inr (Some (0, 9, 0))
   \<and> code_version_of (mnist_builder None (Some ''/data/mnist/0.9.0'')) = Inr (1, 0, 0)
   \<and> ((0, 9, 0) :: ver) < (1, 0, 0)
   \<and> AUTO \<noteq> LATEST
   \<and> self_version (mnist_builder None (Some ''/data/mnist/0.9.0'')) = None
   \<and> set_version (demo_env [''0.9.0'']) (mnist_builder None (Some ''/data/mnist/0.9.0'')) AUTO =
       Inr ((mnist_builder None (Some ''/data/mnist/0.9.0''))\<lparr>self_version := Some (0, 9, 0)\<rparr>,
            [Info_Restoring, Warn_BackwardCompat])"
proof -
  have h1: "data_version_of (demo_env [''0.9.0'']) (mnist_builder None (Some ''/data/mnist/0.9.0''))
     = Inr (Some (0, 9, 0))"
    by code_simp
  have h2: "code_version_of (mnist_builder None (Some ''/data/mnist/0.9.0'')) = Inr (1, 0, 0)"
    by code_simp
  have h3: "((0, 9, 0) :: ver) < (1, 0, 0)"
    by simp
  have h4: "AUTO \<noteq> LATEST"
    by simp
  have h5: "self_version (mnist_builder None (Some ''/data/mnist/0.9.0'')) = None"
    by (simp add: mnist_builder_def)
  from older_data_is_restored_with_warning [OF h1 h2 h3 h4 h5] h1 h2 h3 h4 h5
  show ?thesis by blast
qed

text \<open>
  C6. On an unbound builder whose version is set, when the directory computed for that
  version exists already, \<^verbatim>\<open>download_and_prepare\<close> raises the collision error, whatever
  the mode: nothing is generated. The builder is left with \<^verbatim>\<open>_data_dir\<close> assigned.
\<close>

theorem existing_target_raises_collision:
  assumes "\<not> truthy (self_data_dir b)" and "self_version b = Some v"
    and "get_data_dir E b (Some (Explicit v)) = Some d" and "gfile_Exists E d"
  shows "download_and_prepare E b mode =
     (Raised VersionCollisionError, b\<lparr>self_data_dir := Some d\<rparr>, [])"
  using assms by (simp add: download_and_prepare_def)

theorem existing_target_raises_collision_witness:
  "\<not> truthy (self_data_dir (mnist_builder (Some (1, 0, 0)) None))
   \<and> self_version (mnist_builder (Some (1, 0, 0)) None) = Some (1, 0, 0)
   \<and> get_data_dir (demo_env [''1.0.0'']) (mnist_builder (Some (1, 0, 0)) None)
       (Some (Explicit (1, 0, 0))) = Some ''/data/mnist/1.0.0''
   \<and> gfile_Exists (demo_env [''1.0.0'']) ''/data/mnist/1.0.0''
   \<and> download_and_prepare (demo_env [''1.0.0'']) (mnist_builder (Some (1, 0, 0)) None) None =
       (Raised VersionCollisionError,
        (mnist_builder (Some (1, 0, 0)) None)\<lparr>self_data_dir := Some ''/data/mnist/1.0.0''\<rparr>, [])"
proof -
  have h1: "\<not> truthy (self_data_dir (mnist_builder (Some (1, 0, 0)) None))"
    by (simp add: mnist_builder_def truthy_def)
  have h2: "self_version (mnist_builder (Some (1, 0, 0)) None) = Some (1, 0, 0)"
    by (simp add: mnist_builder_def)
  have h3: "get_data_dir (demo_env [''1.0.0'']) (mnist_builder (Some (1, 0, 0)) None)
       (Some (Explicit (1, 0, 0))) = Some ''/data/mnist/1.0.0''"
    by code_simp
  have h4: "gfile_Exists (demo_env [''1.0.0'']) ''/data/mnist/1.0.0''"
    by code_simp
  from existing_target_raises_collision [OF h1 h2 h3 h4, of None] h1 h2 h3 h4
  show ?thesis by blast
qed


text \<open>
  C7, as stated: a second call of \<^verbatim>\<open>_set_version\<close> on a builder whose version is set. The
  decision is taken again before the guard of step 3 is reached; here it raises its own
  \<^verbatim>\<open>ValueError\<close> (no data, explicit request), not the assertion error.
\<close>

theorem second_set_version_raises_value_error:
  "set_version (demo_env []) (mnist_builder (Some (1, 0, 0)) None) (Explicit (0, 9, 0))
     = Inl VersionNotFoundError
   \<and> exception_class VersionNotFoundError \<noteq> AssertionError"
  by code_simp

text \<open>
  C7, amended: once the version is set, every further call of \<^verbatim>\<open>_set_version\<close> raises; it
  raises the assertion error of step 3 whenever steps 1 and 2 (the decision, taken again)
  do not raise first; and \<^verbatim>\<open>download_and_prepare\<close> never changes the version. So the
  version chosen at construction stays.
\<close>

theorem version_is_set_once:
  assumes "self_version b \<noteq> None"
  shows "isl (set_version E b requested)
       \<and> (\<forall>dv cv r. data_version_of E b = Inr dv \<longrightarrow> code_version_of b = Inr cv
            \<longrightarrow> choose_version requested dv cv = Inr r
            \<longrightarrow> set_version E b requested = Inl VersionAlreadySet)
       \<and> self_version (fst (snd (download_and_prepare E b mode))) = self_version b"
proof -
  have 1: "isl (set_version E b requested)"
    using assms by (simp add: set_version_def split: sum.splits prod.splits)
  have 2: "set_version E b requested = Inl VersionAlreadySet"
    if "data_version_of E b = Inr dv" and "code_version_of b = Inr cv"
      and "choose_version requested dv cv = Inr r" for dv cv r
    using that assms
    by (cases r) (simp add: set_version_def code_version_defined [OF that(2)])
  have 3: "self_version (fst (snd (download_and_prepare E b mode))) = self_version b"
    by (simp add: download_and_prepare_def Let_def split: option.splits)
  from 1 2 3 show ?thesis by blast
qed

theorem version_is_set_once_witness:
  "self_version (mnist_builder (Some (1, 0, 0)) None) \<noteq> None
   \<and> data_version_of (demo_env []) (mnist_builder (Some (1, 0, 0)) None) = Inr None
   \<and> code_version_of (mnist_builder (Some (1, 0, 0)) None) = Inr (1, 0, 0)
   \<and> choose_version AUTO None (1, 0, 0) = Inr (True, [Info_NoPreviousData])
   \<and> set_version (demo_env []) (mnist_builder (Some (1, 0, 0)) None) AUTO = Inl VersionAlreadySet
   \<and> exception_class VersionAlreadySet = AssertionError"
proof -
  have h: "self_version (mnist_builder (Some (1, 0, 0)) None) \<noteq> None"
    by (simp add: mnist_builder_def)
  have h1: "data_version_of (demo_env []) (mnist_builder (Some (1, 0, 0)) None) = Inr None"
    by code_simp
  have h2: "code_version_of (mnist_builder (Some (1, 0, 0)) None) = Inr (1, 0, 0)"
    by code_simp
  have h3: "choose_version AUTO None (1, 0, 0) = Inr (True, [Info_NoPreviousData])"
    by code_simp
  from version_is_set_once [OF h, of "demo_env []" AUTO None] h1 h2 h3
  have "set_version (demo_env []) (mnist_builder (Some (1, 0, 0)) None) AUTO = Inl VersionAlreadySet"
    by blast
  with h h1 h2 h3 show ?thesis by simp
qed




section \<open>Facts about builder configs\<close>

text \<open>
  The dictionary of \<^verbatim>\<open>builder_configs\<close>: it exists exactly when the declared names are
  distinct, and then it maps each declared name to its config and nothing else.
\<close>

lemma config_dict_distinct:
  "distinct (map fst acc) \<Longrightarrow>
   distinct (map fst (fold (\<lambda>config d. AList.update (name config) config d) cfgs acc))"
  by (induction cfgs arbitrary: acc) (simp_all add: distinct_update)

lemma config_dict_keys:
  "fst ` set (fold (\<lambda>config d. AList.update (name config) config d) cfgs acc) =
   fst ` set acc \<union> name ` set cfgs"
  by (induction cfgs arbitrary: acc) (auto simp: dom_update)

lemma config_dict_length:
  "length (fold (\<lambda>config d. AList.update (name config) config d) cfgs []) =
   card (name ` set cfgs)"
proof -
  let ?d = "fold (\<lambda>config d. AList.update (name config) config d) cfgs []"
  have "distinct (map fst ?d)" by (rule config_dict_distinct) simp
  then have "card (set (map fst ?d)) = length (map fst ?d)" by (rule distinct_card)
  moreover have "set (map fst ?d) = name ` set cfgs" using config_dict_keys [of cfgs "[]"] by simp
  ultimately show ?thesis by simp
qed

lemma config_dict_other:
  "k \<notin> name ` set cfgs \<Longrightarrow>
   map_of (fold (\<lambda>config d. AList.update (name config) config d) cfgs acc) k = map_of acc k"
  by (induction cfgs arbitrary: acc) (simp_all add: update_conv')


lemma config_dict_lookup:
  "distinct (map name cfgs) \<Longrightarrow> c \<in> set cfgs \<Longrightarrow>
   map_of (fold (\<lambda>config d. AList.update (name config) config d) cfgs acc) (name c) = Some c"
proof (induction cfgs arbitrary: acc)
  case Nil
  then show ?case by simp
next
  case (Cons x xs)
  show ?case
  proof (cases "c = x")
    case True
    with Cons.prems have "name c \<notin> name ` set xs" by auto
    then show ?thesis using True by (simp add: config_dict_other update_conv')
  next
    case False
    with Cons.prems have "distinct (map name xs)" and "c \<in> set xs" by simp_all
    then show ?thesis using Cons.IH by simp
  qed
qed

lemma config_dict_sound:
  "map_of (fold (\<lambda>config d. AList.update (name config) config d) cfgs acc) k = Some c \<Longrightarrow>
   (c \<in> set cfgs \<and> name c = k) \<or> map_of acc k = Some c"
proof (induction cfgs arbitrary: acc)
  case Nil
  then show ?case by simp
next
  case (Cons x xs)
  from Cons.prems have
    "map_of (fold (\<lambda>config d. AList.update (name config) config d) xs
               (AList.update (name x) x acc)) k = Some c"
    by simp
  from Cons.IH [OF this] have
    "(c \<in> set xs \<and> name c = k) \<or> map_of (AList.update (name x) x acc) k = Some c" .
  then show ?case
    by (cases "k = name x") (auto simp: update_conv')
qed


lemma builder_configs_duplicates:
  assumes "\<not> distinct (map name (BUILDER_CONFIGS C))"
  shows "builder_configs C = Inl DuplicateConfigNames"
proof -
  from assms have
    "card (set (map name (BUILDER_CONFIGS C))) \<noteq> length (map name (BUILDER_CONFIGS C))"
    using card_distinct by blast
  then have "card (name ` set (BUILDER_CONFIGS C)) \<noteq> length (BUILDER_CONFIGS C)"
    by simp
  then show ?thesis
    unfolding builder_configs_def Let_def config_dict_length by simp
qed

lemma builder_configs_distinct:
  assumes "distinct (map name (BUILDER_CONFIGS C))"
  shows "builder_configs C =
     Inr (fold (\<lambda>config d. AList.update (name config) config d) (BUILDER_CONFIGS C) [])"
proof -
  from assms have
    "card (set (map name (BUILDER_CONFIGS C))) = length (map name (BUILDER_CONFIGS C))"
    by (rule distinct_card)
  then have "card (name ` set (BUILDER_CONFIGS C)) = length (BUILDER_CONFIGS C)"
    by simp
  then show ?thesis
    unfolding builder_configs_def Let_def config_dict_length by simp
qed

lemma builder_configs_Inr:
  assumes "builder_configs C = Inr d"
  shows "distinct (map name (BUILDER_CONFIGS C))
       \<and> d = fold (\<lambda>config d. AList.update (name config) config d) (BUILDER_CONFIGS C) []"
proof (cases "distinct (map name (BUILDER_CONFIGS C))")
  case True
  with assms builder_configs_distinct [OF True] show ?thesis by simp
next
  case False
  with assms builder_configs_duplicates [OF False] show ?thesis by simp
qed

lemma builder_configs_lookup:
  assumes "builder_configs C = Inr d" and "c \<in> set (BUILDER_CONFIGS C)"
  shows "map_of d (name c) = Some c"
  using builder_configs_Inr [OF assms(1)] assms(2) by (simp add: config_dict_lookup)

lemma builder_configs_sound:
  assumes "builder_configs C = Inr d" and "map_of d k = Some c"
  shows "c \<in> set (BUILDER_CONFIGS C) \<and> name c = k"
proof -
  from builder_configs_Inr [OF assms(1)] assms(2) have
    "map_of (fold (\<lambda>config d. AList.update (name config) config d) (BUILDER_CONFIGS C) []) k = Some c"
    by simp
  from config_dict_sound [OF this] show ?thesis by simp
qed


text \<open>The config chosen by \<^verbatim>\<open>_create_builder_config\<close> is the one the constructed builder has.\<close>

lemma set_version_keeps_config:
  assumes "set_version E b v = Inr (b', l)"
  shows "self_builder_config b' = self_builder_config b"
proof (cases "data_version_of E b")
  case (Inl e)
  with assms show ?thesis by (simp add: set_version_def split: if_splits)
next
  case dv: (Inr dv)
  show ?thesis
  proof (cases "code_version_of b")
    case (Inl e)
    with assms dv show ?thesis by (simp add: set_version_def split: if_splits)
  next
    case cv: (Inr cv)
    show ?thesis
    proof (cases "choose_version v dv cv")
      case (Inl e)
      with assms dv cv show ?thesis by (simp add: set_version_def split: if_splits)
    next
      case (Inr r)
      obtain uc lg where "r = (uc, lg)" by (cases r)
      with assms dv cv Inr show ?thesis
        by (auto simp add: set_version_def split: if_splits)
    qed
  qed
qed

lemma validate_config_result:
  assumes "validate_config C c = Inr (r, l)"
  shows "r = Some c"
proof (cases "builder_configs C")
  case (Inl e)
  with assms show ?thesis by (simp add: validate_config_def split: if_splits)
next
  case (Inr d)
  with assms show ?thesis
    by (cases "map_of d (name c)") (simp_all add: validate_config_def split: if_splits)
qed

lemma init_config:
  assumes "init E C data_dir config version_arg = Inr (b, l)"
  shows "\<exists>l'. create_builder_config C config = Inr (self_builder_config b, l')"
proof (cases "create_builder_config C config")
  case (Inl e)
  with assms show ?thesis by (simp add: init_def)
next
  case (Inr r)
  obtain bc l1 where r: "r = (bc, l1)" by (cases r)
  from assms Inr r obtain b0 va l2 where
    "set_version E b0 va = Inr (b, l2)" and "self_builder_config b0 = bc"
    by (simp add: init_def Let_def split: sum.splits prod.splits)
  then have "self_builder_config b = bc" using set_version_keeps_config by blast
  with Inr r show ?thesis by simp
qed


text \<open>
  C8, as stated: a config object of the user's that carries the name of a declared config,
  with a version and a description. It is refused: only the declared object itself may
  carry a declared name.
\<close>

theorem clashing_config_is_rejected:
  "create_builder_config flic (ConfigObject other_small_config) = Inl ConfigNameClash
   \<and> name other_small_config \<in> set (map name (BUILDER_CONFIGS flic))
   \<and> version other_small_config \<noteq> None
   \<and> truthy (description other_small_config)"
  by code_simp

text \<open>
  C8, amended: for a config whose (non-empty) name is a declared one,
  \<^verbatim>\<open>_create_builder_config\<close> raises when the object passed is not the declared object
  itself, when it has no version, or when it has no (non-empty) description, and accepts
  it otherwise; passing the name as a string selects the declared object, which is
  accepted exactly when it has both a version and a non-empty description.
\<close>

theorem declared_name_config:
  assumes "builder_configs C = Inr d" and "map_of d (name c) = Some declared"
    and "name c \<noteq> []"
  shows "create_builder_config C (ConfigObject c) =
           (if c \<noteq> declared then Inl ConfigNameClash
            else if version c = None then Inl ConfigNoVersion
            else if \<not> truthy (description c) then Inl ConfigNoDescription
            else Inr (Some c, []))
       \<and> create_builder_config C (ConfigName (name c)) =
           (if version declared = None then Inl ConfigNoVersion
            else if \<not> truthy (description declared) then Inl ConfigNoDescription
            else Inr (Some declared, []))"
proof -
  from builder_configs_sound [OF assms(1,2)] have nm: "name declared = name c" by simp
  have 1: "validate_config C c =
           (if c \<noteq> declared then Inl ConfigNameClash
            else if version c = None then Inl ConfigNoVersion
            else if \<not> truthy (description c) then Inl ConfigNoDescription
            else Inr (Some c, []))"
    using assms by (simp add: validate_config_def)
  have 2: "validate_config C declared =
           (if version declared = None then Inl ConfigNoVersion
            else if \<not> truthy (description declared) then Inl ConfigNoDescription
            else Inr (Some declared, []))"
    using assms nm by (simp add: validate_config_def)
  from 1 2 assms show ?thesis by simp
qed

theorem declared_name_config_witness:
  "builder_configs flic = Inr [(''small'', small_config), (''full'', full_config)]
   \<and> map_of [(''small'', small_config), (''full'', full_config)] (name small_config)
       = Some small_config
   \<and> name small_config \<noteq> []
   \<and> create_builder_config flic (ConfigObject small_config) = Inr (Some small_config, [])
   \<and> create_builder_config flic (ConfigName (name small_config)) = Inr (Some small_config, [])"
proof -
  have h1: "builder_configs flic = Inr [(''small'', small_config), (''full'', full_config)]"
    by code_simp
  have h2: "map_of [(''small'', small_config), (''full'', full_config)] (name small_config)
       = Some small_config"
    by code_simp
  have h3: "name small_config \<noteq> []"
    by (simp add: small_config_def)
  have h4: "version small_config \<noteq> None" "truthy (description small_config)"
    by (simp_all add: small_config_def truthy_def)
  from declared_name_config [OF h1 h2 h3] h4 have
    "create_builder_config flic (ConfigObject small_config) = Inr (Some small_config, [])
     \<and> create_builder_config flic (ConfigName (name small_config)) = Inr (Some small_config, [])"
    by simp
  with h1 h2 h3 show ?thesis by blast
qed

text \<open>
  C9. On a class whose \<^verbatim>\<open>BUILDER_CONFIGS\<close> is not empty, a builder constructed without a
  config argument has the first declared config as its config; and the first config is
  indeed accepted when it has a name, a version and a description and the declared names
  are distinct.
\<close>

theorem default_config_is_first:
  assumes "BUILDER_CONFIGS C \<noteq> []"
  shows "(\<forall>b l. init E C data_dir NoConfig version_arg = Inr (b, l)
            \<longrightarrow> self_builder_config b = Some (hd (BUILDER_CONFIGS C)))
       \<and> (name (hd (BUILDER_CONFIGS C)) \<noteq> [] \<and> distinct (map name (BUILDER_CONFIGS C))
            \<and> version (hd (BUILDER_CONFIGS C)) \<noteq> None
            \<and> truthy (description (hd (BUILDER_CONFIGS C)))
          \<longrightarrow> create_builder_config C NoConfig = Inr (Some (hd (BUILDER_CONFIGS C)), []))"
proof -
  from assms obtain first rest where cfgs: "BUILDER_CONFIGS C = first # rest"
    by (cases "BUILDER_CONFIGS C") auto
  have c: "create_builder_config C NoConfig = validate_config C first"
    by (simp add: cfgs)
  have 1: "self_builder_config b = Some first"
    if i: "init E C data_dir NoConfig version_arg = Inr (b, l)" for b l
  proof -
    from init_config [OF i] obtain l' where
      "validate_config C first = Inr (self_builder_config b, l')"
      unfolding c by blast
    then show ?thesis by (rule validate_config_result)
  qed
  have 2: "create_builder_config C NoConfig = Inr (Some first, [])"
    if n: "name first \<noteq> []" and dn: "distinct (map name (BUILDER_CONFIGS C))"
      and v: "version first \<noteq> None" and t: "truthy (description first)"
  proof -
    from builder_configs_distinct [OF dn] obtain d where d: "builder_configs C = Inr d"
      by blast
    then have "map_of d (name first) = Some first"
      by (rule builder_configs_lookup) (simp add: cfgs)
    with d n v t have "validate_config C first = Inr (Some first, [])"
      by (simp add: validate_config_def)
    then show ?thesis unfolding c .
  qed
  from 1 2 show ?thesis unfolding cfgs list.sel by blast
qed

theorem default_config_is_first_witness:
  "BUILDER_CONFIGS flic \<noteq> []
   \<and> hd (BUILDER_CONFIGS flic) = small_config
   \<and> init (demo_env []) flic None NoConfig None =
       Inr (\<lparr>cls = flic, self_version = Some (2, 0, 0), self_builder_config = Some small_config,
             self_data_dir_root = ''/data'', self_data_dir = None\<rparr>, [Info_NoPreviousData])
   \<and> self_builder_config
        \<lparr>cls = flic, self_version = Some (2, 0, 0), self_builder_config = Some small_config,
         self_data_dir_root = ''/data'', self_data_dir = None\<rparr> = Some (hd (BUILDER_CONFIGS flic))
   \<and> create_builder_config flic NoConfig = Inr (Some (hd (BUILDER_CONFIGS flic)), [])"
proof -
  have h: "BUILDER_CONFIGS flic \<noteq> []"
    by (simp add: flic_def)
  have h0: "hd (BUILDER_CONFIGS flic) = small_config"
    by (simp add: flic_def)
  have h1: "init (demo_env []) flic None NoConfig None =
       Inr (\<lparr>cls = flic, self_version = Some (2, 0, 0), self_builder_config = Some small_config,
             self_data_dir_root = ''/data'', self_data_dir = None\<rparr>, [Info_NoPreviousData])"
    by code_simp
  have h2: "name (hd (BUILDER_CONFIGS flic)) \<noteq> []"
    "distinct (map name (BUILDER_CONFIGS flic))"
    "version (hd (BUILDER_CONFIGS flic)) \<noteq> None"
    "truthy (description (hd (BUILDER_CONFIGS flic)))"
    by (simp_all add: flic_def small_config_def full_config_def truthy_def)
  note t = default_config_is_first [OF h, of "demo_env []" None None]
  from t h1 have a: "self_builder_config
        \<lparr>cls = flic, self_version = Some (2, 0, 0), self_builder_config = Some small_config,
         self_data_dir_root = ''/data'', self_data_dir = None\<rparr> = Some (hd (BUILDER_CONFIGS flic))"
    by blast
  from t h2 have b: "create_builder_config flic NoConfig = Inr (Some (hd (BUILDER_CONFIGS flic)), [])"
    by blast
  from h h0 h1 a b show ?thesis by blast
qed




section \<open>Facts about the FLIC generator\<close>

lemma enumerate_as_map: "enumerate 0 xs = map (\<lambda>i. (i, xs ! i)) [0..<length xs]"
  by (rule nth_equalityI) (simp_all add: nth_enumerate_eq)

lemma generate_examples_keys:
  "generate_examples dir p examples istrain istest =
     map (\<lambda>i. (i, features_of dir p (examples ! i)))
       (filter (\<lambda>i. (f7 (examples ! i) \<noteq> 0 \<and> istrain) \<or> (f8 (examples ! i) \<noteq> 0 \<and> istest))
          [0..<length examples])"
  unfolding generate_examples_def enumerate_as_map filter_map
  by (simp add: comp_def)

lemma generate_examples_key_set:
  "fst ` set (generate_examples dir p examples istrain istest) =
     {i. i < length examples
         \<and> ((f7 (examples ! i) \<noteq> 0 \<and> istrain) \<or> (f8 (examples ! i) \<noteq> 0 \<and> istest))}"
  unfolding generate_examples_keys by (auto simp: image_iff)

text \<open>
  C10, as stated: one example that carries both marks. With the flags of the TRAIN split
  and with those of the TEST split the generator yields it, under the same key 0: the two
  yields are not disjoint although the flags exclude each other.
\<close>

theorem both_marks_in_train_and_test:
  "generate_examples ''FLIC'' ''/x'' [both_marks] True False
     = [(0, features_of ''FLIC'' ''/x'' both_marks)]
   \<and> generate_examples ''FLIC'' ''/x'' [both_marks] False True
     = [(0, features_of ''FLIC'' ''/x'' both_marks)]
   \<and> fst ` set (generate_examples ''FLIC'' ''/x'' [both_marks] True False)
       \<inter> fst ` set (generate_examples ''FLIC'' ''/x'' [both_marks] False True) \<noteq> {}"
  by (simp add: generate_examples_def both_marks_def)

text \<open>
  C10, amended: the generator yields, in order, exactly the examples at the indices \<open>i\<close>
  where field 7 is truthy and \<open>istrain\<close> holds, or field 8 is truthy and \<open>istest\<close> holds,
  each keyed by its index \<open>i\<close>; and the keys yielded for TRAIN (flags true, false) and for
  TEST (flags false, true) are disjoint exactly when no example has both fields truthy.
\<close>

theorem generate_examples_selection:
  "generate_examples dir p examples istrain istest =
     map (\<lambda>i. (i, features_of dir p (examples ! i)))
       (filter (\<lambda>i. (f7 (examples ! i) \<noteq> 0 \<and> istrain) \<or> (f8 (examples ! i) \<noteq> 0 \<and> istest))
          [0..<length examples])
   \<and> (fst ` set (generate_examples dir p examples True False)
        \<inter> fst ` set (generate_examples dir p examples False True) = {}
      \<longleftrightarrow> (\<forall>e \<in> set examples. \<not> (f7 e \<noteq> 0 \<and> f8 e \<noteq> 0)))"
proof -
  have "(fst ` set (generate_examples dir p examples True False)
        \<inter> fst ` set (generate_examples dir p examples False True) = {})
      \<longleftrightarrow> (\<forall>i < length examples. \<not> (f7 (examples ! i) \<noteq> 0 \<and> f8 (examples ! i) \<noteq> 0))"
    unfolding generate_examples_key_set by auto
  also have "\<dots> \<longleftrightarrow> (\<forall>e \<in> set examples. \<not> (f7 e \<noteq> 0 \<and> f8 e \<noteq> 0))"
    by (simp add: all_set_conv_all_nth)
  finally have disjoint:
    "(fst ` set (generate_examples dir p examples True False)
        \<inter> fst ` set (generate_examples dir p examples False True) = {})
      \<longleftrightarrow> (\<forall>e \<in> set examples. \<not> (f7 e \<noteq> 0 \<and> f8 e \<noteq> 0))" .
  show ?thesis by (rule conjI [OF generate_examples_keys disjoint])
qed

theorem generate_examples_selection_witness:
  "generate_examples ''FLIC'' ''/x'' [train_only, test_only] True False =
     [(0, features_of ''FLIC'' ''/x'' train_only)]
   \<and> generate_examples ''FLIC'' ''/x'' [train_only, test_only] False True =
     [(1, features_of ''FLIC'' ''/x'' test_only)]
   \<and> f8 train_only = 0 \<and> f7 test_only = 0
   \<and> fst ` set (generate_examples ''FLIC'' ''/x'' [train_only, test_only] True False)
        \<inter> fst ` set (generate_examples ''FLIC'' ''/x'' [train_only, test_only] False True) = {}"
proof -
  have h: "\<forall>e \<in> set [train_only, test_only]. \<not> (f7 e \<noteq> 0 \<and> f8 e \<noteq> 0)"
    by (simp add: train_only_def test_only_def)
  have a: "generate_examples ''FLIC'' ''/x'' [train_only, test_only] True False =
     [(0, features_of ''FLIC'' ''/x'' train_only)]"
    by (simp add: generate_examples_def train_only_def test_only_def)
  have b: "generate_examples ''FLIC'' ''/x'' [train_only, test_only] False True =
     [(1, features_of ''FLIC'' ''/x'' test_only)]"
    by (simp add: generate_examples_def train_only_def test_only_def)
  note t = generate_examples_selection [of "''FLIC''" "''/x''" "[train_only, test_only]" True False]
  have c: "fst ` set (generate_examples ''FLIC'' ''/x'' [train_only, test_only] True False)
        \<inter> fst ` set (generate_examples ''FLIC'' ''/x'' [train_only, test_only] False True) = {}"
    by (rule iffD2 [OF conjunct2 [OF t] h])
  have m: "f8 train_only = 0" "f7 test_only = 0"
    by (simp_all add: train_only_def test_only_def)
  show ?thesis by (intro conjI a b m c)
qed


end
